theory Spec2Isabelle
  imports Main "HOL-Library.Sublist"
begin

section \<open>The parallel worker of slash (\<^verbatim>\<open>slash/parallel/worker.py\<close>)\<close>

text \<open>
  The worker talks to the master over XML-RPC, runs the tests the master hands out and
  reports their results. The model below is a shallow embedding of \<^verbatim>\<open>Worker.start\<close> and
  \<^verbatim>\<open>Worker.warning_added\<close>. Everything the worker does to the outside world (RPC calls,
  log records, thread and session operations) is recorded, in program order, as a list of
  events; everything the outside world answers (RPC replies, the outcome of running a
  test, the outcome of pickling) is an oracle in an environment record. A Python exception
  is a value of type \<open>exn\<close>.
\<close>

subsection \<open>Python values and exceptions\<close>

text \<open>
  The values an XML-RPC reply of \<^verbatim>\<open>get_test\<close> or \<^verbatim>\<open>finished_test\<close> can be, as far as the
  worker inspects them: it compares them with \<^verbatim>\<open>==\<close> and uses them as a list index. Integers,
  strings and \<^verbatim>\<open>None\<close> are kept apart and compared structurally. A boolean compares and indexes
  in Python as the integer 0 or 1 and is represented by it; a reply of any other type (a
  double, a list, a dictionary) cannot be a list index, so unless it equals a sentinel the
  lookup of line 72 raises TypeError for it as it does for a string.
\<close>

datatype pyval = IntV int | StrV string | NoneV

text \<open>
  \<open>Interruption\<close> stands for any exception that is an instance of a class in
  \<^verbatim>\<open>INTERRUPTION_EXCEPTIONS\<close>; \<open>RpcFailure\<close> for a transport or protocol failure of an
  XML-RPC call; \<open>OtherError\<close> for any other exception of a collaborator.
\<close>

datatype exn =
    Interruption | IndexError | TypeError | PicklingError | AttributeError
  | RpcFailure | OtherError

text \<open>
  The four control values that \<^verbatim>\<open>worker.py\<close> imports from \<^verbatim>\<open>slash/parallel/server.py\<close>. The
  worker only compares replies with them, so their values are parameters of the model.
\<close>

record sentinels =
  WAITING_FOR_CLIENTS :: pyval
  PROTOCOL_ERROR :: pyval
  FINISHED_ALL_TESTS :: pyval
  SHOULD_TERMINATE :: pyval

subsection \<open>Tests, the worker object, warnings\<close>

text \<open>The part of \<^verbatim>\<open>test.__slash__\<close> the worker reads.\<close>

record test =
  file_path :: string
  function_name :: string
  variation_id :: string

record worker =
  client_id :: string
  session_id :: string
  collected_tests :: "test list"

record warning =
  message :: string
  filename :: string
  lineno :: int

type_synonym blob = string

text \<open>A test result object, named by a label; its serialized form is an oracle of the environment.\<close>

datatype result = Result string

subsection \<open>Events\<close>

datatype level = Debug | Error

text \<open>An argument of \<^verbatim>\<open>str.format\<close>.\<close>

datatype arg = S string | I int

datatype event =
    SetSid
  | Register
  | Connect string
  | ValidateCollection string "(string \<times> string \<times> string) list"
  | Disconnect string
  | GetTest string "exn + pyval"
  | FinishedTest string blob "exn + pyval"
  | ReportWarning string blob
  | Log level string "arg list"
  | Sleep nat
  | HeartbeatStart
  | StopEventSet
  | HeartbeatJoin
  | EnterStartedContext
  | ExitStartedContext
  | SetCurrentIndex pyval
  | RunTests test
  | MarkComplete
  | FlushRemainingScopes

text \<open>
  \<open>GetTest c r\<close> and \<open>FinishedTest c b r\<close> record the call together with what came back
  (\<open>Inl\<close>: the call raised). \<open>Sleep n\<close> is \<^verbatim>\<open>time.sleep\<close> with \<open>n\<close> milliseconds.
  \<open>HeartbeatStart\<close> is \<^verbatim>\<open>tr.start()\<close> of the \<^verbatim>\<open>keep_alive\<close> thread, \<open>StopEventSet\<close> is
  \<^verbatim>\<open>stop_event.set()\<close> and \<open>HeartbeatJoin\<close> is \<^verbatim>\<open>tr.join()\<close>.
\<close>

subsection \<open>The environment\<close>

text \<open>
  The replies of the master and the outcomes of the collaborators. The oracles of the run
  loop are indexed by the iteration of the \<^verbatim>\<open>while\<close> loop (from 0) in which the call is
  made. \<open>run_tests k t\<close> is the outcome of lines 74 and 75, \<^verbatim>\<open>run_tests([test])\<close> followed by
  \<^verbatim>\<open>context.session.results[test]\<close>: an exception, or the result object. \<open>serialize r\<close> is the
  outcome of \<^verbatim>\<open>result.serialize()\<close> on line 77, which is evaluated after the debug record of
  line 76 has been written and before \<^verbatim>\<open>finished_test\<close> is called.
\<close>

record env =
  pid_is_pgid :: bool
  connect_reply :: "exn + unit"
  validate_reply :: "exn + bool"
  disconnect_reply :: "exn + unit"
  get_test_reply :: "nat \<Rightarrow> exn + pyval"
  run_tests :: "nat \<Rightarrow> test \<Rightarrow> exn + result"
  serialize :: "result \<Rightarrow> exn + blob"
  finished_test_reply :: "nat \<Rightarrow> exn + pyval"
  pickle_dumps :: "warning \<Rightarrow> exn + blob"
  report_warning_reply :: "exn + unit"

subsection \<open>Indexing a Python list\<close>

text \<open>
  \<^verbatim>\<open>self.collected_tests[test_index]\<close>: an integer from \<open>- len\<close> up to \<open>len - 1\<close> selects an
  element (a negative one counts from the end), any other integer raises IndexError, and a
  value that is not an integer raises TypeError.
\<close>

fun getitem :: "'a list \<Rightarrow> pyval \<Rightarrow> exn + 'a" where
  "getitem xs (IntV i) =
     (if 0 \<le> i then
        (if i < int (length xs) then Inr (xs ! nat i) else Inl IndexError)
      else
        (if - int (length xs) \<le> i then Inr (xs ! nat (int (length xs) + i))
         else Inl IndexError))"
| "getitem xs (StrV s) = Inl TypeError"
| "getitem xs NoneV = Inl TypeError"

subsection \<open>\<^verbatim>\<open>Worker.warning_added\<close>\<close>

text \<open>
  The local variable \<^verbatim>\<open>warning\<close> holds the warning object on entry and the pickled bytes
  once line 32 has assigned to it.
\<close>

datatype warning_var = Obj warning | Bytes blob

text \<open>
  The \<^verbatim>\<open>except (pickle.PicklingError, TypeError)\<close> clause, entered with the events so far,
  the current binding of \<^verbatim>\<open>warning\<close> and the exception raised in the \<^verbatim>\<open>try\<close> body. The
  handler formats \<^verbatim>\<open>warning.message\<close>, \<^verbatim>\<open>warning.filename\<close> and \<^verbatim>\<open>warning.lineno\<close>; a
  bytes object has none of these attributes, so the attribute access raises AttributeError.
\<close>

definition pickle_handler :: "event list \<Rightarrow> warning_var \<Rightarrow> exn \<Rightarrow> event list \<times> exn option" where
  "pickle_handler tr var e =
     (if e = PicklingError \<or> e = TypeError then
        (case var of
           Obj wa \<Rightarrow>
             (tr @ [Log Error ''Failed to pickle warning. Message: {}, File: {}, Line: {}''
                      [S (message wa), S (filename wa), I (lineno wa)]], None)
         | Bytes b \<Rightarrow> (tr, Some AttributeError))
      else (tr, Some e))"

text \<open>The result is the events of the call and the exception that leaves it, if any.\<close>

definition warning_added :: "worker \<Rightarrow> env \<Rightarrow> warning \<Rightarrow> event list \<times> exn option" where
  "warning_added w en wa =
     (case pickle_dumps en wa of
        Inl e \<Rightarrow> pickle_handler [] (Obj wa) e
      | Inr b \<Rightarrow>
          (case report_warning_reply en of
             Inl e \<Rightarrow> pickle_handler [ReportWarning (client_id w) b] (Bytes b) e
           | Inr u \<Rightarrow> ([ReportWarning (client_id w) b], None)))"

subsection \<open>The run loop of \<^verbatim>\<open>Worker.start\<close>\<close>

text \<open>How the \<^verbatim>\<open>while\<close> statement of lines 57 to 80 was left.\<close>

datatype loop_exit =
    LoopBreak pyval      \<comment> \<open>a \<^verbatim>\<open>break\<close>, with the value of \<^verbatim>\<open>test_index\<close>\<close>
  | LoopStopped          \<comment> \<open>the condition \<^verbatim>\<open>not should_stop\<close> was false\<close>
  | LoopRaised exn       \<comment> \<open>an exception left the loop\<close>

definition emit :: "event list \<Rightarrow> (event list \<times> 'a) option \<Rightarrow> (event list \<times> 'a) option" where
  "emit es r = (case r of None \<Rightarrow> None | Some (tr, x) \<Rightarrow> Some (es @ tr, x))"

text \<open>
  \<open>run_loop fuel P w en k should_stop\<close> is the loop from its \<open>k\<close>-th iteration on. Every
  execution of the body costs one unit of fuel; \<open>None\<close> means the loop was still running
  when the fuel ran out.
\<close>

fun run_loop :: "nat \<Rightarrow> sentinels \<Rightarrow> worker \<Rightarrow> env \<Rightarrow> nat \<Rightarrow> bool \<Rightarrow> (event list \<times> loop_exit) option" where
  "run_loop fuel P w en k True = Some ([], LoopStopped)"
| "run_loop 0 P w en k False = None"
| "run_loop (Suc fuel) P w en k False =
     (case get_test_reply en k of
        Inl e \<Rightarrow> Some ([GetTest (client_id w) (Inl e)], LoopRaised e)
      | Inr test_index \<Rightarrow>
          if test_index = WAITING_FOR_CLIENTS P then
            emit [GetTest (client_id w) (Inr test_index),
                  Log Debug ''Worker_id {} recieved waiting_for_clients, sleeping'' [S (client_id w)],
                  Sleep 50]
              (run_loop fuel P w en (Suc k) False)
          else if test_index = PROTOCOL_ERROR P then
            Some ([GetTest (client_id w) (Inr test_index),
                   Log Error ''Worker_id {} recieved protocol error message, terminating'' [S (client_id w)]],
                  LoopBreak test_index)
          else if test_index = FINISHED_ALL_TESTS P then
            Some ([GetTest (client_id w) (Inr test_index),
                   Log Debug ''Got FINISHED_ALL_TESTS, Client {} disconnecting'' [S (client_id w)]],
                  LoopBreak test_index)
          else if test_index = SHOULD_TERMINATE P then
            Some ([GetTest (client_id w) (Inr test_index),
                   Log Debug ''Got SHOULD_TERMINATE, Client {} disconnecting'' [S (client_id w)]],
                  LoopBreak test_index)
          else
            (case getitem (collected_tests w) test_index of
               Inl e \<Rightarrow> Some ([GetTest (client_id w) (Inr test_index)], LoopRaised e)
             | Inr t \<Rightarrow>
                 (case run_tests en k t of
                    Inl e \<Rightarrow>
                      Some ([GetTest (client_id w) (Inr test_index), SetCurrentIndex test_index,
                             RunTests t], LoopRaised e)
                  | Inr result \<Rightarrow>
                      (case serialize en result of
                         Inl e \<Rightarrow>
                           Some ([GetTest (client_id w) (Inr test_index),
                                  SetCurrentIndex test_index, RunTests t,
                                  Log Debug ''Client {} finished test, sending results'' [S (client_id w)]],
                                 LoopRaised e)
                       | Inr b \<Rightarrow>
                           (case finished_test_reply en k of
                              Inl e \<Rightarrow>
                                Some ([GetTest (client_id w) (Inr test_index),
                                       SetCurrentIndex test_index, RunTests t,
                                       Log Debug ''Client {} finished test, sending results'' [S (client_id w)],
                                       FinishedTest (client_id w) b (Inl e)], LoopRaised e)
                            | Inr ret \<Rightarrow>
                                if ret = PROTOCOL_ERROR P then
                                  emit [GetTest (client_id w) (Inr test_index),
                                        SetCurrentIndex test_index, RunTests t,
                                        Log Debug ''Client {} finished test, sending results'' [S (client_id w)],
                                        FinishedTest (client_id w) b (Inr ret),
                                        Log Error ''Worker_id {} recieved protocol error message, terminating'' [S (client_id w)]]
                                    (run_loop fuel P w en (Suc k) True)
                                else
                                  emit [GetTest (client_id w) (Inr test_index),
                                        SetCurrentIndex test_index, RunTests t,
                                        Log Debug ''Client {} finished test, sending results'' [S (client_id w)],
                                        FinishedTest (client_id w) b (Inr ret)]
                                    (run_loop fuel P w en (Suc k) False))))))"

subsection \<open>\<^verbatim>\<open>Worker.start\<close>\<close>

text \<open>Lines 38 to 43: up to and including the call of \<^verbatim>\<open>connect\<close>.\<close>

definition prologue :: "worker \<Rightarrow> env \<Rightarrow> event list" where
  "prologue w en =
     (if \<not> pid_is_pgid en then [SetSid] else []) @ [Register, Connect (client_id w)]"

text \<open>Line 41: the tuple form of the collected tests.\<close>

definition collection :: "worker \<Rightarrow> (string \<times> string \<times> string) list" where
  "collection w = map (\<lambda>t. (file_path t, function_name t, variation_id t)) (collected_tests w)"

text \<open>The \<^verbatim>\<open>finally\<close> clause, lines 88 to 90.\<close>

definition teardown :: "event list" where
  "teardown = [FlushRemainingScopes, StopEventSet, HeartbeatJoin]"

text \<open>
  The \<^verbatim>\<open>try\<close> statement of lines 56 to 90, given how its body (the loop) ended. A \<^verbatim>\<open>break\<close>
  leaves the \<^verbatim>\<open>while\<close> statement, not the \<^verbatim>\<open>try\<close> body, so after a \<^verbatim>\<open>break\<close> as after a false
  loop condition the body has completed without an exception and the \<^verbatim>\<open>else\<close> clause runs.
  An exception raised by \<^verbatim>\<open>disconnect\<close> in the \<^verbatim>\<open>else\<close> clause is not handled by the
  \<^verbatim>\<open>except\<close> clause; the \<^verbatim>\<open>finally\<close> clause runs in every case.
\<close>

definition try_statement :: "worker \<Rightarrow> env \<Rightarrow> event list \<times> loop_exit \<Rightarrow> event list \<times> exn option" where
  "try_statement w en body =
     (case snd body of
        LoopRaised e \<Rightarrow>
          (fst body
             @ (if e = Interruption then [Log Error ''Worker interrupted while executing test'' []] else [])
             @ teardown,
           Some e)
      | LoopBreak v \<Rightarrow>
          (fst body @ [MarkComplete, Disconnect (client_id w)] @ teardown,
           (case disconnect_reply en of Inl e \<Rightarrow> Some e | Inr u \<Rightarrow> None))
      | LoopStopped \<Rightarrow>
          (fst body @ [MarkComplete, Disconnect (client_id w)] @ teardown,
           (case disconnect_reply en of Inl e \<Rightarrow> Some e | Inr u \<Rightarrow> None)))"

text \<open>
  \<^verbatim>\<open>Worker.start\<close>. The result is \<open>None\<close> when the run loop outlives the fuel, and otherwise
  the events of the call with the exception that leaves it (\<open>None\<close>: it returns). The
  context manager of \<^verbatim>\<open>app.session.get_started_context()\<close> is entered and left around the
  \<^verbatim>\<open>try\<close> statement and lets an exception pass.
\<close>

definition start :: "nat \<Rightarrow> sentinels \<Rightarrow> worker \<Rightarrow> env \<Rightarrow> (event list \<times> exn option) option" where
  "start fuel P w en =
     (case connect_reply en of
        Inl e \<Rightarrow> Some (prologue w en, Some e)
      | Inr u \<Rightarrow>
          (case validate_reply en of
             Inl e \<Rightarrow> Some (prologue w en @ [ValidateCollection (client_id w) (collection w)], Some e)
           | Inr valid \<Rightarrow>
               if \<not> valid then
                 Some (prologue w en
                         @ [ValidateCollection (client_id w) (collection w),
                            Log Error ''Collections of worker id {0} and master don't match, worker terminates''
                              [S (client_id w)],
                            Disconnect (client_id w)],
                       (case disconnect_reply en of Inl e \<Rightarrow> Some e | Inr u \<Rightarrow> None))
               else
                 (case run_loop fuel P w en 0 False of
                    None \<Rightarrow> None
                  | Some body \<Rightarrow>
                      Some (prologue w en
                              @ [ValidateCollection (client_id w) (collection w), HeartbeatStart,
                                 EnterStartedContext]
                              @ fst (try_statement w en body)
                              @ [ExitStartedContext],
                            snd (try_statement w en body)))))"

subsection \<open>Observations on event lists\<close>

fun is_Disconnect :: "event \<Rightarrow> bool" where
  "is_Disconnect (Disconnect c) = True"
| "is_Disconnect e = False"

fun is_GetTest :: "event \<Rightarrow> bool" where
  "is_GetTest (GetTest c r) = True"
| "is_GetTest e = False"

fun is_RunTests :: "event \<Rightarrow> bool" where
  "is_RunTests (RunTests t) = True"
| "is_RunTests e = False"

fun is_error_log :: "event \<Rightarrow> bool" where
  "is_error_log (Log Error m as) = True"
| "is_error_log e = False"

text \<open>The payloads handed to \<^verbatim>\<open>finished_test\<close>, in the order of the calls.\<close>

fun submitted :: "event list \<Rightarrow> blob list" where
  "submitted [] = []"
| "submitted (FinishedTest c b r # es) = b # submitted es"
| "submitted (e # es) = submitted es"

text \<open>A reply that one of the four comparisons of lines 59 to 68 accepts.\<close>

definition is_sentinel :: "sentinels \<Rightarrow> pyval \<Rightarrow> bool" where
  "is_sentinel P v =
     (v = WAITING_FOR_CLIENTS P \<or> v = PROTOCOL_ERROR P \<or> v = FINISHED_ALL_TESTS P
      \<or> v = SHOULD_TERMINATE P)"

text \<open>
  The branch of the \<^verbatim>\<open>if\<close>/\<^verbatim>\<open>elif\<close>/\<^verbatim>\<open>else\<close> chain of lines 59 to 71 that a reply of
  \<^verbatim>\<open>get_test\<close> selects: the comparisons are made in this order and the first that holds
  decides.
\<close>

datatype outcome_class = Waiting | ProtocolError | AllFinished | ShouldTerminate | RealIndex

definition classify :: "sentinels \<Rightarrow> pyval \<Rightarrow> outcome_class" where
  "classify P v =
     (if v = WAITING_FOR_CLIENTS P then Waiting
      else if v = PROTOCOL_ERROR P then ProtocolError
      else if v = FINISHED_ALL_TESTS P then AllFinished
      else if v = SHOULD_TERMINATE P then ShouldTerminate
      else RealIndex)"

text \<open>
  A value that selects an element of a list: an integer from \<open>- len\<close> up to \<open>len - 1\<close>. The
  sentinels are out of band for a list when none of them is such a value.
\<close>

fun valid_index :: "'a list \<Rightarrow> pyval \<Rightarrow> bool" where
  "valid_index xs (IntV i) = (- int (length xs) \<le> i \<and> i < int (length xs))"
| "valid_index xs (StrV s) = False"
| "valid_index xs NoneV = False"

definition out_of_band :: "sentinels \<Rightarrow> 'a list \<Rightarrow> bool" where
  "out_of_band P xs =
     (\<not> valid_index xs (WAITING_FOR_CLIENTS P) \<and> \<not> valid_index xs (PROTOCOL_ERROR P)
      \<and> \<not> valid_index xs (FINISHED_ALL_TESTS P) \<and> \<not> valid_index xs (SHOULD_TERMINATE P))"

text \<open>The events of \<^verbatim>\<open>Worker.start\<close> up to the \<^verbatim>\<open>try\<close> statement, after a successful validation.\<close>

definition loop_entry :: "worker \<Rightarrow> env \<Rightarrow> event list" where
  "loop_entry w en =
     prologue w en
       @ [ValidateCollection (client_id w) (collection w), HeartbeatStart, EnterStartedContext]"


subsection \<open>The dispatch discipline as an automaton over events\<close>

text \<open>
  A worker is \<open>Idle\<close> when no test is in flight, \<open>Dispatched v\<close> once \<^verbatim>\<open>get_test\<close> has
  answered with a value \<open>v\<close> that is no sentinel, and \<open>Ran t\<close> once it has run the test
  \<open>t\<close> that \<open>v\<close> selects. \<^verbatim>\<open>get_test\<close> may only be called when idle, a test may only be run
  when it is the dispatched one, and \<^verbatim>\<open>finished_test\<close> may only be called after the run and
  makes the worker idle again. \<open>advance\<close> gives \<open>None\<close> when an event breaks the discipline.
\<close>

datatype phase = Idle | Dispatched pyval | Ran test

fun advance :: "sentinels \<Rightarrow> test list \<Rightarrow> phase \<Rightarrow> event \<Rightarrow> phase option" where
  "advance P ts ph (GetTest c r) =
     (if ph = Idle then
        (case r of
           Inl e \<Rightarrow> Some Idle
         | Inr v \<Rightarrow> if is_sentinel P v then Some Idle else Some (Dispatched v))
      else None)"
| "advance P ts ph (RunTests t) =
     (case ph of
        Dispatched v \<Rightarrow> if getitem ts v = Inr t then Some (Ran t) else None
      | Idle \<Rightarrow> None
      | Ran t' \<Rightarrow> None)"
| "advance P ts ph (FinishedTest c b r) =
     (case ph of Ran t \<Rightarrow> Some Idle | Idle \<Rightarrow> None | Dispatched v \<Rightarrow> None)"
| "advance P ts ph e = Some ph"

fun phase_after :: "sentinels \<Rightarrow> test list \<Rightarrow> phase \<Rightarrow> event list \<Rightarrow> phase option" where
  "phase_after P ts ph [] = Some ph"
| "phase_after P ts ph (e # es) =
     (case advance P ts ph e of None \<Rightarrow> None | Some ph' \<Rightarrow> phase_after P ts ph' es)"

definition one_in_flight :: "sentinels \<Rightarrow> test list \<Rightarrow> event list \<Rightarrow> bool" where
  "one_in_flight P ts tr = (phase_after P ts Idle tr \<noteq> None)"

subsection \<open>Concrete masters and workers\<close>

definition example_sentinels :: sentinels where
  "example_sentinels =
     \<lparr>WAITING_FOR_CLIENTS = StrV ''WAITING_FOR_CLIENTS'',
      PROTOCOL_ERROR = StrV ''PROTOCOL_ERROR'',
      FINISHED_ALL_TESTS = StrV ''FINISHED_ALL_TESTS'',
      SHOULD_TERMINATE = StrV ''SHOULD_TERMINATE''\<rparr>"

definition test_a :: test where
  "test_a = \<lparr>file_path = ''test_file.py'', function_name = ''test_a'', variation_id = ''0''\<rparr>"

definition test_b :: test where
  "test_b = \<lparr>file_path = ''test_file.py'', function_name = ''test_b'', variation_id = ''0''\<rparr>"

definition test_c :: test where
  "test_c = \<lparr>file_path = ''test_file.py'', function_name = ''test_c'', variation_id = ''0''\<rparr>"

definition example_worker :: worker where
  "example_worker =
     \<lparr>client_id = ''worker_1'', session_id = ''session_1'',
      collected_tests = [test_a, test_b, test_c]\<rparr>"

definition example_warning :: warning where
  "example_warning = \<lparr>message = ''deprecated'', filename = ''test_file.py'', lineno = 12\<rparr>"

text \<open>The \<open>k\<close>-th entry of a script, and a default once the script is used up.\<close>

definition scripted :: "'a list \<Rightarrow> 'a \<Rightarrow> nat \<Rightarrow> 'a" where
  "scripted xs d k = (if k < length xs then xs ! k else d)"

text \<open>
  A master that accepts the connection and the collection and then follows three scripts:
  the replies of \<^verbatim>\<open>get_test\<close>, the outcomes of the test runs and the replies of
  \<^verbatim>\<open>finished_test\<close>, each by loop iteration. A result serializes to its label.
\<close>

fun label_of :: "result \<Rightarrow> exn + blob" where
  "label_of (Result s) = Inr s"

definition scripted_env :: "(exn + pyval) list \<Rightarrow> (exn + result) list \<Rightarrow> (exn + pyval) list \<Rightarrow> env" where
  "scripted_env gets runs acks =
     \<lparr>pid_is_pgid = True,
      connect_reply = Inr (),
      validate_reply = Inr True,
      disconnect_reply = Inr (),
      get_test_reply = scripted gets (Inr (FINISHED_ALL_TESTS example_sentinels)),
      run_tests = (\<lambda>k t. scripted runs (Inl OtherError) k),
      serialize = label_of,
      finished_test_reply = scripted acks (Inr NoneV),
      pickle_dumps = (\<lambda>wa. Inl PicklingError),
      report_warning_reply = Inr ()\<rparr>"

section \<open>Properties\<close>

subsection \<open>Auxiliary facts\<close>

lemma emit_Some_iff:
  "emit es r = Some (tr, x) \<longleftrightarrow> (\<exists>tr'. r = Some (tr', x) \<and> tr = es @ tr')"
  by (auto simp add: emit_def split: option.splits)



lemma phase_after_append:
  "phase_after P ts ph (xs @ ys) =
     (case phase_after P ts ph xs of None \<Rightarrow> None | Some ph' \<Rightarrow> phase_after P ts ph' ys)"
  by (induction xs arbitrary: ph) (auto split: option.splits)

lemma phase_after_prologue: "phase_after P ts ph (prologue w en) = Some ph"
  by (simp add: prologue_def)

lemma phase_after_teardown: "phase_after P ts ph teardown = Some ph"
  by (simp add: teardown_def)

text \<open>
  The events of the loop respect the discipline, and the worker is idle again whenever the
  loop ends without an exception.
\<close>

lemma run_loop_phase:
  "run_loop fuel P w en k ss = Some (tr, ex) \<Longrightarrow>
     \<exists>ph. phase_after P (collected_tests w) Idle tr = Some ph
          \<and> ((\<forall>e. ex \<noteq> LoopRaised e) \<longrightarrow> ph = Idle)"
proof (induction fuel P w en k ss arbitrary: tr ex rule: run_loop.induct)
  case (1 fuel P w en k)
  then show ?case by simp
next
  case (2 P w en k)
  then show ?case by simp
next
  case (3 fuel P w en k)
  show ?case
  proof (cases "get_test_reply en k")
    case (Inl e)
    with 3(4) show ?thesis by auto
  next
    case (Inr v)
    show ?thesis
    proof (cases "is_sentinel P v")
      case True
      with 3 Inr show ?thesis
        by (auto simp add: is_sentinel_def emit_def phase_after_append
                 split: if_splits option.splits)
    next
      case False
      with 3 Inr show ?thesis
        by (auto simp add: is_sentinel_def emit_def phase_after_append
                 split: if_splits option.splits sum.splits)
    qed
  qed
qed

lemma try_statement_phase:
  "phase_after P ts Idle (fst body) = Some ph \<Longrightarrow>
   \<exists>ph'. phase_after P ts Idle (fst (try_statement w en body)) = Some ph'"
  by (cases "snd body")
     (simp_all add: try_statement_def phase_after_append phase_after_teardown)

lemma start_after_validation:
  assumes "connect_reply en = Inr ()" and "validate_reply en = Inr True"
    and "run_loop fuel P w en 0 False = Some body"
  shows "start fuel P w en =
           Some (loop_entry w en @ fst (try_statement w en body) @ [ExitStartedContext],
                 snd (try_statement w en body))"
  using assms by (simp add: start_def loop_entry_def)

text \<open>
  What the two exits without an exception mean. The loop condition only becomes false after
  \<^verbatim>\<open>finished_test\<close> has answered \<^verbatim>\<open>PROTOCOL_ERROR\<close>, and a \<^verbatim>\<open>break\<close> with the value \<open>v\<close> follows
  a \<^verbatim>\<open>get_test\<close> that answered \<open>v\<close> and one log record.
\<close>

lemma run_loop_stopped_cause:
  "run_loop fuel P w en k False = Some (tr, LoopStopped) \<Longrightarrow>
     \<exists>b. suffix
           [FinishedTest (client_id w) b (Inr (PROTOCOL_ERROR P)),
            Log Error ''Worker_id {} recieved protocol error message, terminating'' [S (client_id w)]]
           tr"
proof (induction fuel arbitrary: k tr)
  case 0
  then show ?case by simp
next
  case (Suc fuel)
  then show ?case
    by (auto simp add: emit_Some_iff suffix_Cons split: if_splits sum.splits)
qed

lemma run_loop_break_cause:
  "run_loop fuel P w en k False = Some (tr, LoopBreak v) \<Longrightarrow>
     \<exists>e. suffix [GetTest (client_id w) (Inr v), e] tr"
proof (induction fuel arbitrary: k tr)
  case 0
  then show ?case by simp
next
  case (Suc fuel)
  then show ?case
    by (auto simp add: emit_Some_iff suffix_Cons split: if_splits sum.splits)
qed



text \<open>The branch a reply selects, in terms of the comparisons made.\<close>

lemma classify_cases:
  "(classify P v = Waiting) = (v = WAITING_FOR_CLIENTS P)"
  "(classify P v = ProtocolError) = (v \<noteq> WAITING_FOR_CLIENTS P \<and> v = PROTOCOL_ERROR P)"
  "(classify P v = AllFinished) =
     (v \<noteq> WAITING_FOR_CLIENTS P \<and> v \<noteq> PROTOCOL_ERROR P \<and> v = FINISHED_ALL_TESTS P)"
  "(classify P v = ShouldTerminate) =
     (v \<noteq> WAITING_FOR_CLIENTS P \<and> v \<noteq> PROTOCOL_ERROR P \<and> v \<noteq> FINISHED_ALL_TESTS P
      \<and> v = SHOULD_TERMINATE P)"
  "(classify P v = RealIndex) =
     (v \<noteq> WAITING_FOR_CLIENTS P \<and> v \<noteq> PROTOCOL_ERROR P \<and> v \<noteq> FINISHED_ALL_TESTS P
      \<and> v \<noteq> SHOULD_TERMINATE P)"
  by (simp_all add: classify_def)

text \<open>
  The comparisons come before the lookup: were a sentinel constant a valid index, say
  \<^verbatim>\<open>PROTOCOL_ERROR = 0\<close>, the reply 0 would take the branch of that sentinel.
\<close>

lemma sentinel_shadows_valid_index:
  "valid_index (collected_tests example_worker) (IntV 0)
   \<and> \<not> out_of_band (example_sentinels\<lparr>PROTOCOL_ERROR := IntV 0\<rparr>) (collected_tests example_worker)
   \<and> run_loop 1 (example_sentinels\<lparr>PROTOCOL_ERROR := IntV 0\<rparr>) example_worker
         (scripted_env [Inr (IntV 0)] [Inr (Result ''result_a'')] []) 0 False =
       Some ([GetTest ''worker_1'' (Inr (IntV 0)),
              Log Error ''Worker_id {} recieved protocol error message, terminating'' [S ''worker_1'']],
             LoopBreak (IntV 0))"
  by (simp add: out_of_band_def example_sentinels_def example_worker_def scripted_env_def
        scripted_def)

text \<open>
  When \<^verbatim>\<open>result.serialize()\<close> raises, the debug record of line 76 has been written and
  \<^verbatim>\<open>finished_test\<close> has not been called.
\<close>

lemma serialize_failure_after_debug_record:
  assumes "get_test_reply en k = Inr v" and "\<not> is_sentinel P v"
    and "getitem (collected_tests w) v = Inr t"
    and "run_tests en k t = Inr r"
    and "serialize en r = Inl e"
  shows "run_loop (Suc fuel) P w en k False =
           Some ([GetTest (client_id w) (Inr v), SetCurrentIndex v, RunTests t,
                  Log Debug ''Client {} finished test, sending results'' [S (client_id w)]],
                 LoopRaised e)"
  using assms by (simp add: is_sentinel_def)

text \<open>The loop of the scenario with two dispatched tests.\<close>

lemma three_tests_loop:
  assumes "collected_tests w = [t0, t1, t2]"
    and "get_test_reply en 0 = Inr (IntV 0)"
    and "get_test_reply en (Suc 0) = Inr (IntV 1)"
    and "get_test_reply en (Suc (Suc 0)) = Inr (FINISHED_ALL_TESTS P)"
    and "\<not> is_sentinel P (IntV 0)" and "\<not> is_sentinel P (IntV 1)"
    and "FINISHED_ALL_TESTS P \<noteq> WAITING_FOR_CLIENTS P"
    and "FINISHED_ALL_TESTS P \<noteq> PROTOCOL_ERROR P"
    and "run_tests en 0 t0 = Inr r0" and "run_tests en (Suc 0) t1 = Inr r1"
    and "serialize en r0 = Inr b0" and "serialize en r1 = Inr b1"
    and "finished_test_reply en 0 = Inr a0" and "finished_test_reply en (Suc 0) = Inr a1"
    and "a0 \<noteq> PROTOCOL_ERROR P" and "a1 \<noteq> PROTOCOL_ERROR P"
  shows "run_loop (Suc (Suc (Suc fuel))) P w en 0 False =
           Some ([GetTest (client_id w) (Inr (IntV 0)), SetCurrentIndex (IntV 0), RunTests t0,
                  Log Debug ''Client {} finished test, sending results'' [S (client_id w)],
                  FinishedTest (client_id w) b0 (Inr a0),
                  GetTest (client_id w) (Inr (IntV 1)), SetCurrentIndex (IntV 1), RunTests t1,
                  Log Debug ''Client {} finished test, sending results'' [S (client_id w)],
                  FinishedTest (client_id w) b1 (Inr a1),
                  GetTest (client_id w) (Inr (FINISHED_ALL_TESTS P)),
                  Log Debug ''Got FINISHED_ALL_TESTS, Client {} disconnecting'' [S (client_id w)]],
                 LoopBreak (FINISHED_ALL_TESTS P))"
  using assms by (simp add: is_sentinel_def emit_def)

text \<open>The automaton does reject a second \<^verbatim>\<open>get_test\<close> while a test is in flight.\<close>

lemma one_in_flight_rejects_overlap:
  "\<not> one_in_flight example_sentinels (collected_tests example_worker)
       [GetTest ''worker_1'' (Inr (IntV 0)), SetCurrentIndex (IntV 0), RunTests test_a,
        GetTest ''worker_1'' (Inr (IntV 1))]"
  by (simp add: one_in_flight_def is_sentinel_def example_sentinels_def example_worker_def)

subsection \<open>Exit of the run loop on a protocol error\<close>

text \<open>
  Claim C1 says that after \<^verbatim>\<open>PROTOCOL_ERROR\<close> from \<^verbatim>\<open>get_test\<close> or \<^verbatim>\<open>finished_test\<close> the worker
  tears down without calling \<^verbatim>\<open>disconnect\<close> and without marking the session complete. The
  two runs below show otherwise: in the first \<^verbatim>\<open>get_test\<close> answers \<^verbatim>\<open>PROTOCOL_ERROR\<close> at once,
  in the second \<^verbatim>\<open>finished_test\<close> answers it for the first result, and in both the worker
  marks the session complete and calls \<^verbatim>\<open>disconnect\<close> before the teardown.
\<close>

theorem protocol_error_exit_counterexample:
  "start 1 example_sentinels example_worker
     (scripted_env [Inr (StrV ''PROTOCOL_ERROR'')] [] []) =
   Some ([Register, Connect ''worker_1'',
          ValidateCollection ''worker_1'' (collection example_worker),
          HeartbeatStart, EnterStartedContext,
          GetTest ''worker_1'' (Inr (StrV ''PROTOCOL_ERROR'')),
          Log Error ''Worker_id {} recieved protocol error message, terminating'' [S ''worker_1''],
          MarkComplete, Disconnect ''worker_1'',
          FlushRemainingScopes, StopEventSet, HeartbeatJoin, ExitStartedContext], None)
   \<and> start 2 example_sentinels example_worker
     (scripted_env [Inr (IntV 0)] [Inr (Result ''result_a'')] [Inr (StrV ''PROTOCOL_ERROR'')]) =
   Some ([Register, Connect ''worker_1'',
          ValidateCollection ''worker_1'' (collection example_worker),
          HeartbeatStart, EnterStartedContext,
          GetTest ''worker_1'' (Inr (IntV 0)), SetCurrentIndex (IntV 0), RunTests test_a,
          Log Debug ''Client {} finished test, sending results'' [S ''worker_1''],
          FinishedTest ''worker_1'' ''result_a'' (Inr (StrV ''PROTOCOL_ERROR'')),
          Log Error ''Worker_id {} recieved protocol error message, terminating'' [S ''worker_1''],
          MarkComplete, Disconnect ''worker_1'',
          FlushRemainingScopes, StopEventSet, HeartbeatJoin, ExitStartedContext], None)"
  by (simp add: start_def try_statement_def teardown_def prologue_def scripted_env_def
        scripted_def example_sentinels_def example_worker_def emit_def eval_nat_numeral)

text \<open>
  Claim C1, as the code has it: if the run loop ends because \<^verbatim>\<open>get_test\<close> or \<^verbatim>\<open>finished_test\<close>
  returned \<^verbatim>\<open>PROTOCOL_ERROR\<close>, then \<^verbatim>\<open>Worker.start\<close> marks the session complete and calls
  \<^verbatim>\<open>disconnect\<close> exactly once, as on any exit without an exception, and then performs the
  teardown; it returns unless \<^verbatim>\<open>disconnect\<close> itself raises.
\<close>

theorem protocol_error_exit_completes_and_disconnects:
  assumes "connect_reply en = Inr ()" and "validate_reply en = Inr True"
    and "run_loop fuel P w en 0 False = Some (ltr, ex)"
    and "ex = LoopBreak (PROTOCOL_ERROR P) \<or> ex = LoopStopped"
  shows "start fuel P w en =
           Some (loop_entry w en @ ltr
                   @ [MarkComplete, Disconnect (client_id w),
                      FlushRemainingScopes, StopEventSet, HeartbeatJoin, ExitStartedContext],
                 (case disconnect_reply en of Inl e \<Rightarrow> Some e | Inr u \<Rightarrow> None))"
  using start_after_validation[OF assms(1-3)] assms(4)
  by (auto simp add: try_statement_def teardown_def)

theorem protocol_error_exit_completes_and_disconnects_witness:
  "connect_reply (scripted_env [Inr (StrV ''PROTOCOL_ERROR'')] [] []) = Inr ()
   \<and> validate_reply (scripted_env [Inr (StrV ''PROTOCOL_ERROR'')] [] []) = Inr True
   \<and> run_loop 1 example_sentinels example_worker (scripted_env [Inr (StrV ''PROTOCOL_ERROR'')] [] []) 0 False
       = Some ([GetTest ''worker_1'' (Inr (StrV ''PROTOCOL_ERROR'')),
                Log Error ''Worker_id {} recieved protocol error message, terminating'' [S ''worker_1'']],
               LoopBreak (PROTOCOL_ERROR example_sentinels))
   \<and> start 1 example_sentinels example_worker (scripted_env [Inr (StrV ''PROTOCOL_ERROR'')] [] []) =
       Some (loop_entry example_worker (scripted_env [Inr (StrV ''PROTOCOL_ERROR'')] [] [])
               @ [GetTest ''worker_1'' (Inr (StrV ''PROTOCOL_ERROR'')),
                  Log Error ''Worker_id {} recieved protocol error message, terminating'' [S ''worker_1'']]
               @ [MarkComplete, Disconnect ''worker_1'',
                  FlushRemainingScopes, StopEventSet, HeartbeatJoin, ExitStartedContext],
             None)"
proof -
  let ?en = "scripted_env [Inr (StrV ''PROTOCOL_ERROR'')] [] []"
  have h1: "connect_reply ?en = Inr ()" by (simp add: scripted_env_def)
  have h2: "validate_reply ?en = Inr True" by (simp add: scripted_env_def)
  have h3: "run_loop 1 example_sentinels example_worker ?en 0 False
       = Some ([GetTest ''worker_1'' (Inr (StrV ''PROTOCOL_ERROR'')),
                Log Error ''Worker_id {} recieved protocol error message, terminating'' [S ''worker_1'']],
               LoopBreak (PROTOCOL_ERROR example_sentinels))"
    by (simp add: scripted_env_def scripted_def example_sentinels_def example_worker_def)
  have h4: "LoopBreak (PROTOCOL_ERROR example_sentinels) = LoopBreak (PROTOCOL_ERROR example_sentinels)
              \<or> LoopBreak (PROTOCOL_ERROR example_sentinels) = LoopStopped"
    by simp
  show ?thesis
    using h1 h2 h3 protocol_error_exit_completes_and_disconnects[OF h1 h2 h3 h4]
    by (simp add: scripted_env_def example_worker_def)
qed

subsection \<open>A rejected collection\<close>

text \<open>
  Claim C2: when \<^verbatim>\<open>validate_collection\<close> returns false, \<^verbatim>\<open>Worker.start\<close> logs an error that
  names the worker, calls \<^verbatim>\<open>disconnect\<close> exactly once and \<^verbatim>\<open>get_test\<close> never, neither starts the
  heartbeat thread nor enters the run loop, and returns without marking the session
  complete (it returns when the \<^verbatim>\<open>disconnect\<close> call itself succeeds).
\<close>

theorem validate_false_terminates:
  assumes "connect_reply en = Inr ()" and "validate_reply en = Inr False"
  shows "\<exists>tr res. start fuel P w en = Some (tr, res)
           \<and> Log Error ''Collections of worker id {0} and master don't match, worker terminates''
                [S (client_id w)] \<in> set tr
           \<and> length (filter is_Disconnect tr) = 1
           \<and> filter is_GetTest tr = []
           \<and> filter is_RunTests tr = []
           \<and> HeartbeatStart \<notin> set tr
           \<and> EnterStartedContext \<notin> set tr
           \<and> MarkComplete \<notin> set tr
           \<and> (disconnect_reply en = Inr () \<longrightarrow> res = None)"
  using assms by (simp add: start_def prologue_def)

theorem validate_false_terminates_witness:
  "connect_reply ((scripted_env [Inr (IntV 0)] [Inr (Result ''result_a'')] [])\<lparr>validate_reply := Inr False\<rparr>) = Inr ()
   \<and> validate_reply ((scripted_env [Inr (IntV 0)] [Inr (Result ''result_a'')] [])\<lparr>validate_reply := Inr False\<rparr>) = Inr False
   \<and> start 5 example_sentinels example_worker
        ((scripted_env [Inr (IntV 0)] [Inr (Result ''result_a'')] [])\<lparr>validate_reply := Inr False\<rparr>) =
      Some ([Register, Connect ''worker_1'',
             ValidateCollection ''worker_1'' (collection example_worker),
             Log Error ''Collections of worker id {0} and master don't match, worker terminates''
               [S ''worker_1''],
             Disconnect ''worker_1''], None)"
proof -
  let ?en = "(scripted_env [Inr (IntV 0)] [Inr (Result ''result_a'')] [])\<lparr>validate_reply := Inr False\<rparr>"
  have h1: "connect_reply ?en = Inr ()" by (simp add: scripted_env_def)
  have h2: "validate_reply ?en = Inr False" by (simp add: scripted_env_def)
  show ?thesis
    using h1 h2 validate_false_terminates[OF h1 h2, of 5 example_sentinels example_worker]
    by (simp add: start_def prologue_def scripted_env_def example_worker_def)
qed

subsection \<open>Two tests, then all finished\<close>

text \<open>
  Claim C3: a worker with three collected tests whose master answers \<^verbatim>\<open>get_test\<close> with index
  0, then index 1, then \<^verbatim>\<open>FINISHED_ALL_TESTS\<close>, and acknowledges both results, runs test 0 and
  test 1, submits exactly their two results in this order, leaves the loop without an
  error, marks the session complete and calls \<^verbatim>\<open>disconnect\<close> exactly once. The sentinel
  constants are parameters: the indices 0 and 1 are assumed not to be sentinels, and
  \<^verbatim>\<open>FINISHED_ALL_TESTS\<close> to differ from the two sentinels compared before it.
\<close>

theorem three_tests_scenario:
  assumes "connect_reply en = Inr ()" and "validate_reply en = Inr True"
    and "disconnect_reply en = Inr ()"
    and "collected_tests w = [t0, t1, t2]"
    and "get_test_reply en 0 = Inr (IntV 0)"
    and "get_test_reply en (Suc 0) = Inr (IntV 1)"
    and "get_test_reply en (Suc (Suc 0)) = Inr (FINISHED_ALL_TESTS P)"
    and "\<not> is_sentinel P (IntV 0)" and "\<not> is_sentinel P (IntV 1)"
    and "FINISHED_ALL_TESTS P \<noteq> WAITING_FOR_CLIENTS P"
    and "FINISHED_ALL_TESTS P \<noteq> PROTOCOL_ERROR P"
    and "run_tests en 0 t0 = Inr r0" and "run_tests en (Suc 0) t1 = Inr r1"
    and "serialize en r0 = Inr b0" and "serialize en r1 = Inr b1"
    and "finished_test_reply en 0 = Inr a0" and "finished_test_reply en (Suc 0) = Inr a1"
    and "a0 \<noteq> PROTOCOL_ERROR P" and "a1 \<noteq> PROTOCOL_ERROR P"
  shows "\<exists>ltr tr. run_loop (Suc (Suc (Suc fuel))) P w en 0 False
                     = Some (ltr, LoopBreak (FINISHED_ALL_TESTS P))
           \<and> start (Suc (Suc (Suc fuel))) P w en = Some (tr, None)
           \<and> filter is_RunTests tr = [RunTests t0, RunTests t1]
           \<and> submitted tr = [b0, b1]
           \<and> length (filter is_GetTest tr) = 3
           \<and> filter is_error_log tr = []
           \<and> length (filter (\<lambda>e. e = MarkComplete) tr) = 1
           \<and> length (filter is_Disconnect tr) = 1"
proof -
  note loop = three_tests_loop[OF assms(4-19), of fuel]
  have st: "start (Suc (Suc (Suc fuel))) P w en =
      Some (loop_entry w en
              @ [GetTest (client_id w) (Inr (IntV 0)), SetCurrentIndex (IntV 0), RunTests t0,
                 Log Debug ''Client {} finished test, sending results'' [S (client_id w)],
                 FinishedTest (client_id w) b0 (Inr a0),
                 GetTest (client_id w) (Inr (IntV 1)), SetCurrentIndex (IntV 1), RunTests t1,
                 Log Debug ''Client {} finished test, sending results'' [S (client_id w)],
                 FinishedTest (client_id w) b1 (Inr a1),
                 GetTest (client_id w) (Inr (FINISHED_ALL_TESTS P)),
                 Log Debug ''Got FINISHED_ALL_TESTS, Client {} disconnecting'' [S (client_id w)],
                 MarkComplete, Disconnect (client_id w),
                 FlushRemainingScopes, StopEventSet, HeartbeatJoin, ExitStartedContext],
            None)"
    unfolding start_after_validation[OF assms(1,2) loop]
    by (simp add: try_statement_def teardown_def assms(3))
  show ?thesis
    unfolding loop st by (simp add: loop_entry_def prologue_def)
qed

theorem three_tests_scenario_witness:
  "\<exists>ltr tr. run_loop (Suc (Suc (Suc 0))) example_sentinels example_worker
                 (scripted_env [Inr (IntV 0), Inr (IntV 1)] [Inr (Result ''success''), Inr (Result ''failure'')] []) 0 False
                     = Some (ltr, LoopBreak (FINISHED_ALL_TESTS example_sentinels))
           \<and> start (Suc (Suc (Suc 0))) example_sentinels example_worker
                 (scripted_env [Inr (IntV 0), Inr (IntV 1)] [Inr (Result ''success''), Inr (Result ''failure'')] [])
               = Some (tr, None)
           \<and> filter is_RunTests tr = [RunTests test_a, RunTests test_b]
           \<and> submitted tr = [''success'', ''failure'']
           \<and> length (filter is_GetTest tr) = 3
           \<and> filter is_error_log tr = []
           \<and> length (filter (\<lambda>e. e = MarkComplete) tr) = 1
           \<and> length (filter is_Disconnect tr) = 1"
  by (rule three_tests_scenario[where ?t2.0 = test_c and ?a0.0 = NoneV and ?a1.0 = NoneV
          and ?r0.0 = "Result ''success''" and ?r1.0 = "Result ''failure''"])
     (simp_all add: scripted_env_def scripted_def example_sentinels_def example_worker_def
        is_sentinel_def)

subsection \<open>Teardown on every exit of the run loop\<close>

text \<open>
  Claim C4: however the run loop ends (a \<^verbatim>\<open>break\<close>, a false loop condition after a protocol
  error, or an exception such as an interruption), \<^verbatim>\<open>Worker.start\<close> flushes the remaining
  scopes, sets the stop event and joins the heartbeat thread, in this order and as its
  last actions inside the started context; an exception that left the loop, an
  interruption in particular, leaves \<^verbatim>\<open>Worker.start\<close> after this teardown, and for an
  interruption the only event between the loop and the teardown is the error log.
\<close>

theorem teardown_on_every_exit:
  assumes "connect_reply en = Inr ()" and "validate_reply en = Inr True"
    and "run_loop fuel P w en 0 False = Some (ltr, ex)"
  shows "\<exists>mid res. start fuel P w en =
             Some (loop_entry w en @ ltr @ mid
                     @ [FlushRemainingScopes, StopEventSet, HeartbeatJoin, ExitStartedContext], res)
           \<and> FlushRemainingScopes \<notin> set mid \<and> StopEventSet \<notin> set mid \<and> HeartbeatJoin \<notin> set mid
           \<and> (\<forall>e. ex = LoopRaised e \<longrightarrow> res = Some e)
           \<and> (ex = LoopRaised Interruption \<longrightarrow>
                mid = [Log Error ''Worker interrupted while executing test'' []])"
  using start_after_validation[OF assms]
  by (cases ex) (simp_all add: try_statement_def teardown_def)

theorem teardown_on_every_exit_witness:
  "connect_reply (scripted_env [Inr (IntV 0)] [Inl Interruption] []) = Inr ()
   \<and> validate_reply (scripted_env [Inr (IntV 0)] [Inl Interruption] []) = Inr True
   \<and> run_loop 1 example_sentinels example_worker (scripted_env [Inr (IntV 0)] [Inl Interruption] []) 0 False =
       Some ([GetTest ''worker_1'' (Inr (IntV 0)), SetCurrentIndex (IntV 0), RunTests test_a],
             LoopRaised Interruption)
   \<and> start 1 example_sentinels example_worker (scripted_env [Inr (IntV 0)] [Inl Interruption] []) =
       Some ([Register, Connect ''worker_1'',
              ValidateCollection ''worker_1'' (collection example_worker),
              HeartbeatStart, EnterStartedContext,
              GetTest ''worker_1'' (Inr (IntV 0)), SetCurrentIndex (IntV 0), RunTests test_a,
              Log Error ''Worker interrupted while executing test'' [],
              FlushRemainingScopes, StopEventSet, HeartbeatJoin, ExitStartedContext],
             Some Interruption)"
proof -
  let ?en = "scripted_env [Inr (IntV 0)] [Inl Interruption] []"
  have h1: "connect_reply ?en = Inr ()" by (simp add: scripted_env_def)
  have h2: "validate_reply ?en = Inr True" by (simp add: scripted_env_def)
  have h3: "run_loop 1 example_sentinels example_worker ?en 0 False =
       Some ([GetTest ''worker_1'' (Inr (IntV 0)), SetCurrentIndex (IntV 0), RunTests test_a],
             LoopRaised Interruption)"
    by (simp add: scripted_env_def scripted_def example_sentinels_def example_worker_def)
  from teardown_on_every_exit[OF h1 h2 h3]
  obtain mid res where
    "start 1 example_sentinels example_worker ?en =
       Some (loop_entry example_worker ?en
               @ [GetTest ''worker_1'' (Inr (IntV 0)), SetCurrentIndex (IntV 0), RunTests test_a] @ mid
               @ [FlushRemainingScopes, StopEventSet, HeartbeatJoin, ExitStartedContext], res)"
    and "res = Some Interruption"
    and "mid = [Log Error ''Worker interrupted while executing test'' []]"
    by blast
  with h1 h2 h3 show ?thesis
    by (simp add: loop_entry_def prologue_def scripted_env_def example_worker_def)
qed

subsection \<open>One test in flight\<close>

text \<open>
  Claim C5: in every run of \<^verbatim>\<open>Worker.start\<close> the events respect the dispatch discipline:
  \<^verbatim>\<open>get_test\<close> is only called while no test is in flight, the test that is run is the one
  the dispatched index selects, and its result is submitted with \<^verbatim>\<open>finished_test\<close> before
  the next call of \<^verbatim>\<open>get_test\<close>.
\<close>

theorem dispatch_and_submission_sequential:
  assumes "start fuel P w en = Some (tr, res)"
  shows "one_in_flight P (collected_tests w) tr"
proof (cases "run_loop fuel P w en 0 False")
  case None
  with assms show ?thesis
    by (auto simp add: start_def one_in_flight_def phase_after_append phase_after_prologue
             split: sum.splits if_splits)
next
  case (Some body)
  obtain ltr ex where body: "body = (ltr, ex)" by (cases body)
  from run_loop_phase[of fuel P w en 0 False ltr ex] Some body
  obtain ph where "phase_after P (collected_tests w) Idle (fst body) = Some ph" by auto
  from try_statement_phase[OF this, of w en]
  obtain ph' where
    "phase_after P (collected_tests w) Idle (fst (try_statement w en body)) = Some ph'" ..
  with assms Some show ?thesis
    by (auto simp add: start_def one_in_flight_def phase_after_append phase_after_prologue
             split: sum.splits if_splits)
qed

theorem dispatch_and_submission_sequential_witness:
  "start 3 example_sentinels example_worker
     (scripted_env [Inr (IntV 2), Inr (IntV 0)] [Inr (Result ''result_c''), Inr (Result ''result_a'')] []) =
     Some ([Register, Connect ''worker_1'',
            ValidateCollection ''worker_1'' (collection example_worker),
            HeartbeatStart, EnterStartedContext,
            GetTest ''worker_1'' (Inr (IntV 2)), SetCurrentIndex (IntV 2), RunTests test_c,
            Log Debug ''Client {} finished test, sending results'' [S ''worker_1''],
            FinishedTest ''worker_1'' ''result_c'' (Inr NoneV),
            GetTest ''worker_1'' (Inr (IntV 0)), SetCurrentIndex (IntV 0), RunTests test_a,
            Log Debug ''Client {} finished test, sending results'' [S ''worker_1''],
            FinishedTest ''worker_1'' ''result_a'' (Inr NoneV),
            GetTest ''worker_1'' (Inr (StrV ''FINISHED_ALL_TESTS'')),
            Log Debug ''Got FINISHED_ALL_TESTS, Client {} disconnecting'' [S ''worker_1''],
            MarkComplete, Disconnect ''worker_1'',
            FlushRemainingScopes, StopEventSet, HeartbeatJoin, ExitStartedContext], None)
   \<and> one_in_flight example_sentinels (collected_tests example_worker)
       [Register, Connect ''worker_1'',
            ValidateCollection ''worker_1'' (collection example_worker),
            HeartbeatStart, EnterStartedContext,
            GetTest ''worker_1'' (Inr (IntV 2)), SetCurrentIndex (IntV 2), RunTests test_c,
            Log Debug ''Client {} finished test, sending results'' [S ''worker_1''],
            FinishedTest ''worker_1'' ''result_c'' (Inr NoneV),
            GetTest ''worker_1'' (Inr (IntV 0)), SetCurrentIndex (IntV 0), RunTests test_a,
            Log Debug ''Client {} finished test, sending results'' [S ''worker_1''],
            FinishedTest ''worker_1'' ''result_a'' (Inr NoneV),
            GetTest ''worker_1'' (Inr (StrV ''FINISHED_ALL_TESTS'')),
            Log Debug ''Got FINISHED_ALL_TESTS, Client {} disconnecting'' [S ''worker_1''],
            MarkComplete, Disconnect ''worker_1'',
            FlushRemainingScopes, StopEventSet, HeartbeatJoin, ExitStartedContext]"
proof -
  let ?en = "scripted_env [Inr (IntV 2), Inr (IntV 0)] [Inr (Result ''result_c''), Inr (Result ''result_a'')] []"
  have h: "start 3 example_sentinels example_worker ?en =
     Some ([Register, Connect ''worker_1'',
            ValidateCollection ''worker_1'' (collection example_worker),
            HeartbeatStart, EnterStartedContext,
            GetTest ''worker_1'' (Inr (IntV 2)), SetCurrentIndex (IntV 2), RunTests test_c,
            Log Debug ''Client {} finished test, sending results'' [S ''worker_1''],
            FinishedTest ''worker_1'' ''result_c'' (Inr NoneV),
            GetTest ''worker_1'' (Inr (IntV 0)), SetCurrentIndex (IntV 0), RunTests test_a,
            Log Debug ''Client {} finished test, sending results'' [S ''worker_1''],
            FinishedTest ''worker_1'' ''result_a'' (Inr NoneV),
            GetTest ''worker_1'' (Inr (StrV ''FINISHED_ALL_TESTS'')),
            Log Debug ''Got FINISHED_ALL_TESTS, Client {} disconnecting'' [S ''worker_1''],
            MarkComplete, Disconnect ''worker_1'',
            FlushRemainingScopes, StopEventSet, HeartbeatJoin, ExitStartedContext], None)"
    by (simp add: start_def try_statement_def teardown_def prologue_def scripted_env_def
          scripted_def example_sentinels_def example_worker_def emit_def eval_nat_numeral)
  from dispatch_and_submission_sequential[OF h] h show ?thesis by simp
qed

subsection \<open>A warning that cannot be pickled\<close>

text \<open>
  Claim C6 says that for every warning whose serialization fails the hook logs an error,
  drops the warning and returns. The handler of line 34 names two exception classes only:
  when \<^verbatim>\<open>pickle.dumps\<close> fails with another one, here AttributeError, nothing is logged and the
  exception leaves \<^verbatim>\<open>warning_added\<close>.
\<close>

theorem pickle_failure_other_class_counterexample:
  "pickle_dumps ((scripted_env [] [] [])\<lparr>pickle_dumps := (\<lambda>wa. Inl AttributeError)\<rparr>) example_warning
     = Inl AttributeError
   \<and> warning_added example_worker
        ((scripted_env [] [] [])\<lparr>pickle_dumps := (\<lambda>wa. Inl AttributeError)\<rparr>) example_warning
     = ([], Some AttributeError)"
  by (simp add: warning_added_def pickle_handler_def)

text \<open>
  Claim C6, as the code has it: when \<^verbatim>\<open>pickle.dumps\<close> raises PicklingError or TypeError, the
  two classes the handler catches, \<^verbatim>\<open>warning_added\<close> logs one error with the message, the
  file name and the line of the warning, reports nothing to the master and returns without
  raising.
\<close>

theorem pickle_failure_logged:
  assumes "pickle_dumps en wa = Inl e" and "e = PicklingError \<or> e = TypeError"
  shows "warning_added w en wa =
           ([Log Error ''Failed to pickle warning. Message: {}, File: {}, Line: {}''
               [S (message wa), S (filename wa), I (lineno wa)]], None)"
  using assms by (auto simp add: warning_added_def pickle_handler_def)

theorem pickle_failure_logged_witness:
  "pickle_dumps (scripted_env [] [] []) example_warning = Inl PicklingError
   \<and> (PicklingError = PicklingError \<or> PicklingError = TypeError)
   \<and> warning_added example_worker (scripted_env [] [] []) example_warning =
       ([Log Error ''Failed to pickle warning. Message: {}, File: {}, Line: {}''
           [S ''deprecated'', S ''test_file.py'', I 12]], None)"
proof -
  have h1: "pickle_dumps (scripted_env [] [] []) example_warning = Inl PicklingError"
    by (simp add: scripted_env_def)
  have h2: "PicklingError = PicklingError \<or> PicklingError = TypeError" by simp
  show ?thesis
    using h1 pickle_failure_logged[OF h1 h2, of example_worker]
    by (simp add: example_warning_def)
qed

subsection \<open>Waiting for clients\<close>



subsection \<open>A protocol error as acknowledgement\<close>

text \<open>
  Claim C8: when \<^verbatim>\<open>finished_test\<close> answers \<^verbatim>\<open>PROTOCOL_ERROR\<close> for a submitted result, the loop
  ends with that iteration whatever fuel is left: the result has been submitted, an error
  is logged, and no further \<^verbatim>\<open>get_test\<close> call or test run follows.
\<close>

theorem ack_protocol_error_stops:
  assumes "get_test_reply en k = Inr v" and "\<not> is_sentinel P v"
    and "getitem (collected_tests w) v = Inr t"
    and "run_tests en k t = Inr result"
    and "serialize en result = Inr b"
    and "finished_test_reply en k = Inr (PROTOCOL_ERROR P)"
  shows "run_loop (Suc fuel) P w en k False =
           Some ([GetTest (client_id w) (Inr v), SetCurrentIndex v, RunTests t,
                  Log Debug ''Client {} finished test, sending results'' [S (client_id w)],
                  FinishedTest (client_id w) b (Inr (PROTOCOL_ERROR P)),
                  Log Error ''Worker_id {} recieved protocol error message, terminating'' [S (client_id w)]],
                 LoopStopped)"
  using assms by (simp add: is_sentinel_def emit_def)

theorem ack_protocol_error_stops_witness:
  "get_test_reply (scripted_env [Inr (IntV 1), Inr (IntV 2)] [Inr (Result ''result_b''), Inr (Result ''result_c'')]
       [Inr (StrV ''PROTOCOL_ERROR'')]) 0 = Inr (IntV 1)
   \<and> \<not> is_sentinel example_sentinels (IntV 1)
   \<and> getitem (collected_tests example_worker) (IntV 1) = Inr test_b
   \<and> run_tests (scripted_env [Inr (IntV 1), Inr (IntV 2)] [Inr (Result ''result_b''), Inr (Result ''result_c'')]
       [Inr (StrV ''PROTOCOL_ERROR'')]) 0 test_b = Inr (Result ''result_b'')
   \<and> serialize (scripted_env [Inr (IntV 1), Inr (IntV 2)] [Inr (Result ''result_b''), Inr (Result ''result_c'')]
       [Inr (StrV ''PROTOCOL_ERROR'')]) (Result ''result_b'') = Inr ''result_b''
   \<and> finished_test_reply (scripted_env [Inr (IntV 1), Inr (IntV 2)] [Inr (Result ''result_b''), Inr (Result ''result_c'')]
       [Inr (StrV ''PROTOCOL_ERROR'')]) 0 = Inr (PROTOCOL_ERROR example_sentinels)
   \<and> run_loop (Suc 7) example_sentinels example_worker
        (scripted_env [Inr (IntV 1), Inr (IntV 2)] [Inr (Result ''result_b''), Inr (Result ''result_c'')]
           [Inr (StrV ''PROTOCOL_ERROR'')]) 0 False =
       Some ([GetTest ''worker_1'' (Inr (IntV 1)), SetCurrentIndex (IntV 1), RunTests test_b,
              Log Debug ''Client {} finished test, sending results'' [S ''worker_1''],
              FinishedTest ''worker_1'' ''result_b'' (Inr (StrV ''PROTOCOL_ERROR'')),
              Log Error ''Worker_id {} recieved protocol error message, terminating'' [S ''worker_1'']],
             LoopStopped)"
proof -
  let ?en = "scripted_env [Inr (IntV 1), Inr (IntV 2)] [Inr (Result ''result_b''), Inr (Result ''result_c'')]
       [Inr (StrV ''PROTOCOL_ERROR'')]"
  have h1: "get_test_reply ?en 0 = Inr (IntV 1)" by (simp add: scripted_env_def scripted_def)
  have h2: "\<not> is_sentinel example_sentinels (IntV 1)"
    by (simp add: is_sentinel_def example_sentinels_def)
  have h3: "getitem (collected_tests example_worker) (IntV 1) = Inr test_b"
    by (simp add: example_worker_def)
  have h4: "run_tests ?en 0 test_b = Inr (Result ''result_b'')" by (simp add: scripted_env_def scripted_def)
  have h5: "serialize ?en (Result ''result_b'') = Inr ''result_b''" by (simp add: scripted_env_def)
  have h6: "finished_test_reply ?en 0 = Inr (PROTOCOL_ERROR example_sentinels)"
    by (simp add: scripted_env_def scripted_def example_sentinels_def)
  show ?thesis
    using h1 h2 h3 h4 h5 h6 ack_protocol_error_stops[OF h1 h2 h3 h4 h5 h6, of 7]
    by (simp add: example_worker_def example_sentinels_def)
qed

subsection \<open>The five outcomes of a reply\<close>

text \<open>
  Claim C9 says that every reply of \<^verbatim>\<open>get_test\<close> is a wait, a protocol error, the end of all
  tests, a request to terminate, or a test index that resolves in the collected tests.
  A reply that is no sentinel and selects no collected test is none of these: the lookup
  of line 72 raises, and the exception leaves the loop and \<^verbatim>\<open>Worker.start\<close>. Below, a
  worker with three tests receives the index 7, and then \<^verbatim>\<open>None\<close>.
\<close>

theorem unresolvable_reply_counterexample:
  "\<not> is_sentinel example_sentinels (IntV 7)
   \<and> getitem (collected_tests example_worker) (IntV 7) = Inl IndexError
   \<and> start 1 example_sentinels example_worker (scripted_env [Inr (IntV 7)] [] []) =
       Some ([Register, Connect ''worker_1'',
              ValidateCollection ''worker_1'' (collection example_worker),
              HeartbeatStart, EnterStartedContext,
              GetTest ''worker_1'' (Inr (IntV 7)),
              FlushRemainingScopes, StopEventSet, HeartbeatJoin, ExitStartedContext],
             Some IndexError)
   \<and> \<not> is_sentinel example_sentinels NoneV
   \<and> getitem (collected_tests example_worker) NoneV = Inl TypeError
   \<and> start 1 example_sentinels example_worker (scripted_env [Inr NoneV] [] []) =
       Some ([Register, Connect ''worker_1'',
              ValidateCollection ''worker_1'' (collection example_worker),
              HeartbeatStart, EnterStartedContext,
              GetTest ''worker_1'' (Inr NoneV),
              FlushRemainingScopes, StopEventSet, HeartbeatJoin, ExitStartedContext],
             Some TypeError)"
  by (simp add: start_def try_statement_def teardown_def prologue_def scripted_env_def
        scripted_def example_sentinels_def example_worker_def is_sentinel_def)

text \<open>
  Claim C9, as the code has it: every reply of \<^verbatim>\<open>get_test\<close> selects exactly one of five
  branches of the loop body, tried in this order: \<^verbatim>\<open>WAITING_FOR_CLIENTS\<close> (debug record, sleep,
  next iteration), \<^verbatim>\<open>PROTOCOL_ERROR\<close> (error record, break), \<^verbatim>\<open>FINISHED_ALL_TESTS\<close> (break),
  \<^verbatim>\<open>SHOULD_TERMINATE\<close> (break), and otherwise the reply is used as an index into the collected
  tests. In the fifth branch an integer from \<open>- len\<close> up to \<open>len - 1\<close> selects a test, which is
  run, serialized and submitted, and the loop stops or continues by the acknowledgement;
  any other integer raises IndexError and any other value TypeError, and the exception
  leaves the loop. The equation gives the whole iteration in each case, so nothing is
  passed over in silence. The comparisons with the sentinels come first: a valid index is
  treated as an index whenever no sentinel constant is itself a valid index.
\<close>

theorem sentinel_exhaustiveness:
  assumes "get_test_reply en k = Inr v"
  shows "run_loop (Suc fuel) P w en k False =
         (case classify P v of
            Waiting \<Rightarrow>
              emit [GetTest (client_id w) (Inr v),
                    Log Debug ''Worker_id {} recieved waiting_for_clients, sleeping'' [S (client_id w)],
                    Sleep 50]
                (run_loop fuel P w en (Suc k) False)
          | ProtocolError \<Rightarrow>
              Some ([GetTest (client_id w) (Inr v),
                     Log Error ''Worker_id {} recieved protocol error message, terminating'' [S (client_id w)]],
                    LoopBreak v)
          | AllFinished \<Rightarrow>
              Some ([GetTest (client_id w) (Inr v),
                     Log Debug ''Got FINISHED_ALL_TESTS, Client {} disconnecting'' [S (client_id w)]],
                    LoopBreak v)
          | ShouldTerminate \<Rightarrow>
              Some ([GetTest (client_id w) (Inr v),
                     Log Debug ''Got SHOULD_TERMINATE, Client {} disconnecting'' [S (client_id w)]],
                    LoopBreak v)
          | RealIndex \<Rightarrow>
              (case v of
                 IntV i \<Rightarrow>
                   if - int (length (collected_tests w)) \<le> i \<and> i < int (length (collected_tests w)) then
                     (let t = collected_tests w
                                ! nat (if i < 0 then int (length (collected_tests w)) + i else i)
                      in case run_tests en k t of
                           Inl e \<Rightarrow>
                             Some ([GetTest (client_id w) (Inr v), SetCurrentIndex v, RunTests t],
                                   LoopRaised e)
                         | Inr r \<Rightarrow>
                             (case serialize en r of
                                Inl e \<Rightarrow>
                                  Some ([GetTest (client_id w) (Inr v), SetCurrentIndex v, RunTests t,
                                         Log Debug ''Client {} finished test, sending results'' [S (client_id w)]],
                                        LoopRaised e)
                              | Inr b \<Rightarrow>
                                  (case finished_test_reply en k of
                                     Inl e \<Rightarrow>
                                       Some ([GetTest (client_id w) (Inr v), SetCurrentIndex v, RunTests t,
                                              Log Debug ''Client {} finished test, sending results'' [S (client_id w)],
                                              FinishedTest (client_id w) b (Inl e)],
                                             LoopRaised e)
                                   | Inr ret \<Rightarrow>
                                       if ret = PROTOCOL_ERROR P then
                                         Some ([GetTest (client_id w) (Inr v), SetCurrentIndex v, RunTests t,
                                                Log Debug ''Client {} finished test, sending results'' [S (client_id w)],
                                                FinishedTest (client_id w) b (Inr ret),
                                                Log Error ''Worker_id {} recieved protocol error message, terminating'' [S (client_id w)]],
                                               LoopStopped)
                                       else
                                         emit [GetTest (client_id w) (Inr v), SetCurrentIndex v, RunTests t,
                                               Log Debug ''Client {} finished test, sending results'' [S (client_id w)],
                                               FinishedTest (client_id w) b (Inr ret)]
                                           (run_loop fuel P w en (Suc k) False))))
                   else Some ([GetTest (client_id w) (Inr v)], LoopRaised IndexError)
               | StrV s \<Rightarrow> Some ([GetTest (client_id w) (Inr v)], LoopRaised TypeError)
               | NoneV \<Rightarrow> Some ([GetTest (client_id w) (Inr v)], LoopRaised TypeError)))
         \<and> (out_of_band P (collected_tests w) \<longrightarrow> valid_index (collected_tests w) v
              \<longrightarrow> classify P v = RealIndex)"
proof -
  have behaviour: "run_loop (Suc fuel) P w en k False =
         (case classify P v of
            Waiting \<Rightarrow>
              emit [GetTest (client_id w) (Inr v),
                    Log Debug ''Worker_id {} recieved waiting_for_clients, sleeping'' [S (client_id w)],
                    Sleep 50]
                (run_loop fuel P w en (Suc k) False)
          | ProtocolError \<Rightarrow>
              Some ([GetTest (client_id w) (Inr v),
                     Log Error ''Worker_id {} recieved protocol error message, terminating'' [S (client_id w)]],
                    LoopBreak v)
          | AllFinished \<Rightarrow>
              Some ([GetTest (client_id w) (Inr v),
                     Log Debug ''Got FINISHED_ALL_TESTS, Client {} disconnecting'' [S (client_id w)]],
                    LoopBreak v)
          | ShouldTerminate \<Rightarrow>
              Some ([GetTest (client_id w) (Inr v),
                     Log Debug ''Got SHOULD_TERMINATE, Client {} disconnecting'' [S (client_id w)]],
                    LoopBreak v)
          | RealIndex \<Rightarrow>
              (case v of
                 IntV i \<Rightarrow>
                   if - int (length (collected_tests w)) \<le> i \<and> i < int (length (collected_tests w)) then
                     (let t = collected_tests w
                                ! nat (if i < 0 then int (length (collected_tests w)) + i else i)
                      in case run_tests en k t of
                           Inl e \<Rightarrow>
                             Some ([GetTest (client_id w) (Inr v), SetCurrentIndex v, RunTests t],
                                   LoopRaised e)
                         | Inr r \<Rightarrow>
                             (case serialize en r of
                                Inl e \<Rightarrow>
                                  Some ([GetTest (client_id w) (Inr v), SetCurrentIndex v, RunTests t,
                                         Log Debug ''Client {} finished test, sending results'' [S (client_id w)]],
                                        LoopRaised e)
                              | Inr b \<Rightarrow>
                                  (case finished_test_reply en k of
                                     Inl e \<Rightarrow>
                                       Some ([GetTest (client_id w) (Inr v), SetCurrentIndex v, RunTests t,
                                              Log Debug ''Client {} finished test, sending results'' [S (client_id w)],
                                              FinishedTest (client_id w) b (Inl e)],
                                             LoopRaised e)
                                   | Inr ret \<Rightarrow>
                                       if ret = PROTOCOL_ERROR P then
                                         Some ([GetTest (client_id w) (Inr v), SetCurrentIndex v, RunTests t,
                                                Log Debug ''Client {} finished test, sending results'' [S (client_id w)],
                                                FinishedTest (client_id w) b (Inr ret),
                                                Log Error ''Worker_id {} recieved protocol error message, terminating'' [S (client_id w)]],
                                               LoopStopped)
                                       else
                                         emit [GetTest (client_id w) (Inr v), SetCurrentIndex v, RunTests t,
                                               Log Debug ''Client {} finished test, sending results'' [S (client_id w)],
                                               FinishedTest (client_id w) b (Inr ret)]
                                           (run_loop fuel P w en (Suc k) False))))
                   else Some ([GetTest (client_id w) (Inr v)], LoopRaised IndexError)
               | StrV s \<Rightarrow> Some ([GetTest (client_id w) (Inr v)], LoopRaised TypeError)
               | NoneV \<Rightarrow> Some ([GetTest (client_id w) (Inr v)], LoopRaised TypeError)))"
  proof (cases "classify P v")
    case Waiting
    from Waiting[unfolded classify_cases] assms show ?thesis
      unfolding Waiting by auto
  next
    case ProtocolError
    from ProtocolError[unfolded classify_cases] assms show ?thesis
      unfolding ProtocolError by auto
  next
    case AllFinished
    from AllFinished[unfolded classify_cases] assms show ?thesis
      unfolding AllFinished by auto
  next
    case ShouldTerminate
    from ShouldTerminate[unfolded classify_cases] assms show ?thesis
      unfolding ShouldTerminate by auto
  next
    case RealIndex
    note no_sentinel = RealIndex[unfolded classify_cases]
    show ?thesis
    proof (cases v)
      case (IntV i)
      with no_sentinel assms show ?thesis
        unfolding RealIndex
        by (auto simp add: Let_def emit_def split: sum.splits)
    next
      case (StrV s)
      with no_sentinel assms show ?thesis
        unfolding RealIndex by auto
    next
      case NoneV
      with no_sentinel assms show ?thesis
        unfolding RealIndex by auto
    qed
  qed
  have distinct: "out_of_band P (collected_tests w) \<longrightarrow> valid_index (collected_tests w) v
      \<longrightarrow> classify P v = RealIndex"
    by (auto simp add: out_of_band_def classify_cases)
  from behaviour distinct show ?thesis by (rule conjI)
qed

theorem sentinel_exhaustiveness_witness:
  "get_test_reply (scripted_env [Inr (IntV 1)] [Inr (Result ''result_b'')] []) 0 = Inr (IntV 1)
   \<and> out_of_band example_sentinels (collected_tests example_worker)
   \<and> valid_index (collected_tests example_worker) (IntV 1)
   \<and> classify example_sentinels (IntV 1) = RealIndex
   \<and> run_loop (Suc (Suc 0)) example_sentinels example_worker
         (scripted_env [Inr (IntV 1)] [Inr (Result ''result_b'')] []) 0 False =
       Some ([GetTest ''worker_1'' (Inr (IntV 1)), SetCurrentIndex (IntV 1), RunTests test_b,
              Log Debug ''Client {} finished test, sending results'' [S ''worker_1''],
              FinishedTest ''worker_1'' ''result_b'' (Inr NoneV),
              GetTest ''worker_1'' (Inr (StrV ''FINISHED_ALL_TESTS'')),
              Log Debug ''Got FINISHED_ALL_TESTS, Client {} disconnecting'' [S ''worker_1'']],
             LoopBreak (StrV ''FINISHED_ALL_TESTS''))"
proof -
  let ?en = "scripted_env [Inr (IntV 1)] [Inr (Result ''result_b'')] []"
  have h: "get_test_reply ?en 0 = Inr (IntV 1)" by (simp add: scripted_env_def scripted_def)
  have oob: "out_of_band example_sentinels (collected_tests example_worker)"
    by (simp add: out_of_band_def example_sentinels_def)
  have vi: "valid_index (collected_tests example_worker) (IntV 1)"
    by (simp add: example_worker_def)
  from sentinel_exhaustiveness[OF h, where P = example_sentinels and fuel = "Suc 0"
        and w = example_worker] oob vi
  have cls: "classify example_sentinels (IntV 1) = RealIndex" by blast
  show ?thesis
    using h oob vi cls
      sentinel_exhaustiveness[OF h, where P = example_sentinels and fuel = "Suc 0"
        and w = example_worker]
    by (simp add: example_sentinels_def example_worker_def scripted_env_def scripted_def emit_def)
qed

subsection \<open>A failure of \<^verbatim>\<open>report_warning\<close> after pickling\<close>

text \<open>
  Claim C10: when the warning pickles and \<^verbatim>\<open>report_warning\<close> raises TypeError, the handler
  finds the pickled bytes in the variable \<^verbatim>\<open>warning\<close>, its attribute access raises, and
  the exception leaves \<^verbatim>\<open>warning_added\<close>: nothing is logged.
\<close>

theorem report_warning_type_error_escapes:
  assumes "pickle_dumps en wa = Inr b" and "report_warning_reply en = Inl TypeError"
  shows "warning_added w en wa = ([ReportWarning (client_id w) b], Some AttributeError)"
  using assms by (simp add: warning_added_def pickle_handler_def)

theorem report_warning_type_error_escapes_witness:
  "pickle_dumps ((scripted_env [] [] [])\<lparr>pickle_dumps := (\<lambda>wa. Inr ''pickled''),
        report_warning_reply := Inl TypeError\<rparr>) example_warning = Inr ''pickled''
   \<and> report_warning_reply ((scripted_env [] [] [])\<lparr>pickle_dumps := (\<lambda>wa. Inr ''pickled''),
        report_warning_reply := Inl TypeError\<rparr>) = Inl TypeError
   \<and> warning_added example_worker
        ((scripted_env [] [] [])\<lparr>pickle_dumps := (\<lambda>wa. Inr ''pickled''),
           report_warning_reply := Inl TypeError\<rparr>) example_warning =
       ([ReportWarning ''worker_1'' ''pickled''], Some AttributeError)"
proof -
  let ?en = "(scripted_env [] [] [])\<lparr>pickle_dumps := (\<lambda>wa. Inr ''pickled''),
        report_warning_reply := Inl TypeError\<rparr>"
  have h1: "pickle_dumps ?en example_warning = Inr ''pickled''" by simp
  have h2: "report_warning_reply ?en = Inl TypeError" by simp
  show ?thesis
    using h1 h2 report_warning_type_error_escapes[OF h1 h2, of example_worker]
    by (simp add: example_worker_def)
qed

end
